theory Spec2Isabelle
  imports Complex_Main "HOL-Library.AList" "HOL-Library.List_Lexorder" "HOL-Library.Product_Lexorder"
begin

section \<open>Shared pieces: errors, numerical closeness, dictionaries\<close>

text \<open>
  Python exceptions are values. \<open>Exception\<close> carries the message of a plain
  \<^verbatim>\<open>raise Exception(...)\<close>, \<open>AssertionError\<close> that of a failed \<^verbatim>\<open>assert\<close>;
  \<open>TypeError\<close> is what unpacking a non-iterable raises, \<open>KeyError\<close> what a missing
  dictionary key raises, \<open>IndexError\<close> what an index out of range raises and
  \<open>ValueError\<close> what numpy raises for an empty array or for shapes that do not fit.
\<close>

datatype error =
  Exception string | AssertionError string | TypeError | KeyError | IndexError | ValueError

text \<open>
  \<^verbatim>\<open>np.isclose(a, b)\<close> with numpy's default tolerances \<^verbatim>\<open>rtol=1e-05, atol=1e-08\<close>:
  \<^verbatim>\<open>absolute(a - b) <= (atol + rtol * absolute(b))\<close>. Numbers are modelled as reals.
\<close>

definition isclose :: "real \<Rightarrow> real \<Rightarrow> bool" where
  "isclose a b \<longleftrightarrow> \<bar>a - b\<bar> \<le> 1 / 10 ^ 8 + 1 / 10 ^ 5 * \<bar>b\<bar>"

text \<open>
  A Python \<^verbatim>\<open>dict\<close> is an association list with distinct keys in insertion order:
  \<^verbatim>\<open>d[k] = v\<close> is \<^const>\<open>AList.update\<close> (an existing key keeps its place, a new one goes
  last), \<^verbatim>\<open>del d[k]\<close> is \<^const>\<open>AList.delete\<close> where the key is known to be present,
  \<^verbatim>\<open>d[k]\<close> is \<^const>\<open>map_of\<close> with \<open>None\<close> for the \<^verbatim>\<open>KeyError\<close>.

  A comprehension \<^verbatim>\<open>{mon.name: v for mon, v in d.items()}\<close> inserts the entries in
  order, a later entry overwriting an earlier one of the same name.
\<close>

definition name_dict :: "('m \<Rightarrow> string) \<Rightarrow> ('m \<times> 'v) list \<Rightarrow> (string \<times> 'v) list" where
  "name_dict nm d = foldl (\<lambda>acc (mon, v). AList.update (nm mon) v acc) [] d"

section \<open>Sanitising a monomial given by the user\<close>

text \<open>
  The argument of \<^verbatim>\<open>_sanitise_monomial\<close> is dynamically typed; the branches of its
  \<^verbatim>\<open>isinstance\<close> chain are the constructors below: an interned compound monomial, an
  interned atomic monomial, a sympy expression (as the list of its factors' names), an
  array (tuple, list or ndarray), a string, a real number, anything else.
\<close>

datatype ('m, 'a) mon_input =
    InCompound 'm
  | InAtomic 'a
  | InSymbolic "string list"
  | InArray "nat list list"
  | InStr string
  | InReal real
  | InOther

text \<open>
  What the engine object supplies and the valuation code never changes: the reserved
  monomials \<^verbatim>\<open>self.One\<close> and \<^verbatim>\<open>self.Zero\<close>, the attribute \<^verbatim>\<open>mon.name\<close> of a compound
  monomial, and the handling of the symbolic, array and string branches of
  \<^verbatim>\<open>_sanitise_monomial\<close>, which goes through the parser and the canonicaliser
  (\<^verbatim>\<open>to_numbers\<close>, \<^verbatim>\<open>to_canonical\<close>, \<^verbatim>\<open>_interpret_name\<close>) and the monomial classes of
  \<^verbatim>\<open>monomial_classes.py\<close>; these are parameters here. \<open>unpack\<close> is what Python's
  tuple unpacking \<^verbatim>\<open>(k, v2) = mon\<close> does to a compound monomial object.
\<close>

record ('m, 'a) mon_env =
  One :: 'm
  Zero :: 'm
  name :: "'m \<Rightarrow> string"
  from_atoms :: "'a list \<Rightarrow> 'm"
  from_symbolic :: "string list \<Rightarrow> error + 'm"
  from_array :: "nat list list \<Rightarrow> error + 'm"
  from_str :: "string \<Rightarrow> error + 'm"
  unpack :: "'m \<Rightarrow> error + (real \<times> 'm)"

text \<open>\<^verbatim>\<open>InflationSDP._sanitise_monomial\<close> (InflationSDP.py, lines 1030-1076). The SDP
  engine has no branch for an atomic monomial object: it falls to the last \<^verbatim>\<open>else\<close>.\<close>

fun sdp_sanitise_monomial :: "('m, 'a) mon_env \<Rightarrow> ('m, 'a) mon_input \<Rightarrow> error + 'm" where
  "sdp_sanitise_monomial E (InCompound mon) = Inr mon"
| "sdp_sanitise_monomial E (InSymbolic ops) = from_symbolic E ops"
| "sdp_sanitise_monomial E (InArray arr) = from_array E arr"
| "sdp_sanitise_monomial E (InStr s) = from_str E s"
| "sdp_sanitise_monomial E (InReal x) =
     (if isclose x 1 then Inr (One E)
      else if isclose x 0 then Inr (Zero E)
      else Inl (Exception ''Constant monomial can only be 0 or 1.''))"
| "sdp_sanitise_monomial E (InAtomic a) = Inl (Exception ''sanitise_monomial: type is not supported.'')"
| "sdp_sanitise_monomial E InOther = Inl (Exception ''sanitise_monomial: type is not supported.'')"

text \<open>\<^verbatim>\<open>InflationLP._sanitise_monomial\<close> (InflationLP.py, lines 1009-1075).\<close>

fun lp_sanitise_monomial :: "('m, 'a) mon_env \<Rightarrow> ('m, 'a) mon_input \<Rightarrow> error + 'm" where
  "lp_sanitise_monomial E (InCompound mon) = Inr mon"
| "lp_sanitise_monomial E (InAtomic a) = Inr (from_atoms E [a])"
| "lp_sanitise_monomial E (InSymbolic ops) = from_symbolic E ops"
| "lp_sanitise_monomial E (InArray arr) = from_array E arr"
| "lp_sanitise_monomial E (InStr s) = from_str E s"
| "lp_sanitise_monomial E (InReal x) =
     (if isclose x 1 then Inr (One E)
      else Inl (Exception ''Constant monomial can only be 1.''))"
| "lp_sanitise_monomial E InOther = Inl (Exception ''sanitise_monomial: type is not supported.'')"

section \<open>The valuation state of the two engines\<close>

text \<open>
  The attributes that both \<^verbatim>\<open>InflationSDP\<close> and \<^verbatim>\<open>InflationLP\<close> objects carry and that
  the valuation code reads and writes. A semiknown entry \<^verbatim>\<open>mon: (value, unknown)\<close>
  relates \<open>mon\<close> to \<open>value * unknown\<close>.
\<close>

record 'm valuation =
  supports_problem :: bool
  known_moments :: "('m \<times> real) list"
  semiknown_moments :: "('m \<times> real \<times> 'm) list"
  moment_lowerbounds :: "('m \<times> real) list"
  moment_upperbounds :: "('m \<times> real) list"

text \<open>The LP object: \<^verbatim>\<open>_reset_solution\<close> deletes the solution attributes and sets the
  status string.\<close>

record 'm lp_engine = "'m valuation" +
  solution_present :: bool
  status :: string

text \<open>The SDP object keeps the objective, its processed form, the processed lower
  bounds and a name-keyed mirror of each dictionary.\<close>

record 'm sdp_engine = "'m valuation" +
  objective :: "('m \<times> real) list"
  processed_objective :: "('m \<times> real) list"
  processed_moment_lowerbounds :: "('m \<times> real) list"
  known_moments_name_dict :: "(string \<times> real) list"
  semiknown_moments_name_dict :: "(string \<times> real \<times> string) list"
  moment_lowerbounds_name_dict :: "(string \<times> real) list"
  processed_moment_lowerbounds_name_dict :: "(string \<times> real) list"
  objective_as_name_dict :: "(string \<times> real) list"

section \<open>Bounds of the LP engine\<close>









section \<open>Cleaning up after values are set\<close>

text \<open>
  The supports branch shared by both engines (InflationSDP.py, lines 917-923;
  InflationLP.py, lines 1489-1497): the known monomials whose value is not close to 0
  are collected first, then each gets the lower bound 1 and leaves the known moments,
  and the semiknown relations are dropped.
\<close>

definition nonzero_known_monomials :: "('k \<times> real) list \<Rightarrow> 'k list" where
  "nonzero_known_monomials known = [mon. (mon, v) \<leftarrow> known, \<not> isclose v 0]"

fun bounds_from_support :: "'k list \<Rightarrow> ('k \<times> real) list \<times> ('k \<times> real) list \<Rightarrow> ('k \<times> real) list \<times> ('k \<times> real) list" where
  "bounds_from_support [] (lower, known) = (lower, known)"
| "bounds_from_support (mon # mons) (lower, known) =
     bounds_from_support mons (AList.update mon 1 lower, AList.delete mon known)"

text \<open>\<^verbatim>\<open>InflationLP._cleanup_after_set_values\<close> (InflationLP.py, lines 1486-1507); the
  two \<^verbatim>\<open>print\<close> statements have no effect on the object.\<close>

definition lp_cleanup_after_set_values :: "('m, 'z) valuation_scheme \<Rightarrow> ('m, 'z) valuation_scheme" where
  "lp_cleanup_after_set_values s =
     (let s1 = (if supports_problem s
                then (let (lower, known) =
                            bounds_from_support (nonzero_known_monomials (known_moments s))
                              (moment_lowerbounds s, known_moments s)
                      in s\<lparr>moment_lowerbounds := lower, known_moments := known,
                           semiknown_moments := []\<rparr>)
                else s)
      in if semiknown_moments s1 \<noteq> []
         then s1\<lparr>semiknown_moments :=
                   foldl (\<lambda>semi k. AList.delete k semi) (semiknown_moments s1) (map fst (known_moments s1))\<rparr>
         else s1)"

text \<open>
  \<^verbatim>\<open>InflationSDP.update_physical_lowerbounds\<close> (lines 654-658): the lower bounds of the
  monomials that are not known are copied to the processed lower bounds, and the name
  mirror is rebuilt after each copy. The source iterates over a \<^verbatim>\<open>set\<close>; the dictionary
  it builds does not depend on the order, the model takes the order of the lower bounds.
\<close>

fun copy_lowerbounds ::
  "('m \<Rightarrow> string) \<Rightarrow> ('m \<times> real) list \<Rightarrow> 'm list \<Rightarrow> ('m \<times> real) list \<times> (string \<times> real) list
     \<Rightarrow> ('m \<times> real) list \<times> (string \<times> real) list"
where
  "copy_lowerbounds nm lower [] (processed, names) = (processed, names)"
| "copy_lowerbounds nm lower (mon # mons) (processed, names) =
     (case map_of lower mon of
        None \<Rightarrow> copy_lowerbounds nm lower mons (processed, names)
      | Some b \<Rightarrow>
          (let processed' = AList.update mon b processed
           in copy_lowerbounds nm lower mons (processed', name_dict nm processed')))"

definition update_physical_lowerbounds :: "('m, 'a) mon_env \<Rightarrow> 'm sdp_engine \<Rightarrow> 'm sdp_engine" where
  "update_physical_lowerbounds E s =
     (let todo = [mon \<leftarrow> map fst (moment_lowerbounds s). mon \<notin> fst ` set (known_moments s)];
          (processed, names) =
             copy_lowerbounds (name E) (moment_lowerbounds s) todo
               (processed_moment_lowerbounds s, processed_moment_lowerbounds_name_dict s)
      in s\<lparr>processed_moment_lowerbounds := processed,
           processed_moment_lowerbounds_name_dict := names\<rparr>)"

text \<open>
  \<^verbatim>\<open>InflationSDP._update_objective\<close> (lines 996-1028). A loop returns the dictionary as
  it stands and the exception that interrupted it, if any.

  The first loop substitutes the known monomials:
  \<^verbatim>\<open>processed[One] += processed[m] * value; del processed[m]\<close>.
\<close>

fun substitute_known ::
  "'m \<Rightarrow> ('m \<times> real) list \<Rightarrow> 'm list \<Rightarrow> ('m \<times> real) list \<Rightarrow> ('m \<times> real) list \<times> error option"
where
  "substitute_known one known [] processed = (processed, None)"
| "substitute_known one known (m # ms) processed =
     (case (map_of known m, map_of processed one, map_of processed m) of
        (Some v, Some c1, Some c) \<Rightarrow>
          substitute_known one known ms (AList.delete m (AList.update one (c1 + c * v) processed))
      | _ \<Rightarrow> (processed, Some KeyError))"

text \<open>
  The second loop reads \<^verbatim>\<open>for (k, v2) in self.semiknown_moments[v1]:\<close>. The value
  stored for \<open>v1\<close> is the tuple \<^verbatim>\<open>(value, unknown)\<close>, so the loop runs over the two
  elements of the tuple and unpacks each of them into \<^verbatim>\<open>(k, v2)\<close>: first the number,
  then the monomial. Unpacking a float raises \<^verbatim>\<open>TypeError\<close>.
\<close>

datatype 'm tuple_item = Number real | Monomial 'm

fun unpack_item :: "('m, 'a) mon_env \<Rightarrow> 'm tuple_item \<Rightarrow> error + (real \<times> 'm)" where
  "unpack_item E (Number x) = Inl TypeError"
| "unpack_item E (Monomial m) = unpack E m"

text \<open>The body of the inner loop:
  \<^verbatim>\<open>processed[v2] = processed.get(v2, 0) + c1 * k; del processed[v1]\<close>.\<close>

fun substitute_items ::
  "('m, 'a) mon_env \<Rightarrow> 'm \<Rightarrow> real \<Rightarrow> 'm tuple_item list \<Rightarrow> ('m \<times> real) list \<Rightarrow> ('m \<times> real) list \<times> error option"
where
  "substitute_items E v1 c1 [] processed = (processed, None)"
| "substitute_items E v1 c1 (item # items) processed =
     (case unpack_item E item of
        Inl e \<Rightarrow> (processed, Some e)
      | Inr (k, v2) \<Rightarrow>
          (let p1 = AList.update v2 ((case map_of processed v2 of None \<Rightarrow> 0 | Some c2 \<Rightarrow> c2) + c1 * k) processed
           in if v1 \<in> fst ` set p1 then substitute_items E v1 c1 items (AList.delete v1 p1)
              else (p1, Some KeyError)))"

fun substitute_semiknown ::
  "('m, 'a) mon_env \<Rightarrow> ('m \<times> real \<times> 'm) list \<Rightarrow> 'm list \<Rightarrow> ('m \<times> real) list \<Rightarrow> ('m \<times> real) list \<times> error option"
where
  "substitute_semiknown E semi [] processed = (processed, None)"
| "substitute_semiknown E semi (v1 # vs) processed =
     (case (map_of processed v1, map_of semi v1) of
        (Some c1, Some (value, unknown)) \<Rightarrow>
          (case substitute_items E v1 c1 [Number value, Monomial unknown] processed of
             (p1, None) \<Rightarrow> substitute_semiknown E semi vs p1
           | (p1, Some e) \<Rightarrow> (p1, Some e))
      | _ \<Rightarrow> (processed, Some KeyError))"

text \<open>The two key sets are \<^verbatim>\<open>set(...).intersection(...)\<close>; the known keys lose
  \<^verbatim>\<open>self.One\<close>. The name mirror of the objective is written only when no loop raised.\<close>

definition update_objective :: "('m, 'a) mon_env \<Rightarrow> 'm sdp_engine \<Rightarrow> 'm sdp_engine \<times> error option" where
  "update_objective E s =
     (let p0 = objective s;
          known_keys_to_process =
            [m \<leftarrow> map fst (known_moments s). m \<in> fst ` set p0 \<and> m \<noteq> One E]
      in case substitute_known (One E) (known_moments s) known_keys_to_process p0 of
           (p1, Some e) \<Rightarrow> (s\<lparr>processed_objective := p1\<rparr>, Some e)
         | (p1, None) \<Rightarrow>
             (let semiknown_keys_to_process =
                    [v1 \<leftarrow> map fst (semiknown_moments s). v1 \<in> fst ` set p1]
              in case substitute_semiknown E (semiknown_moments s) semiknown_keys_to_process p1 of
                   (p2, Some e) \<Rightarrow> (s\<lparr>processed_objective := p2\<rparr>, Some e)
                 | (p2, None) \<Rightarrow>
                     (s\<lparr>processed_objective := p2,
                        objective_as_name_dict := name_dict (name E) (objective s)\<rparr>, None)))"

text \<open>\<^verbatim>\<open>InflationSDP.cleanup_after_set_values\<close> (lines 904-937).\<close>

definition sdp_cleanup_after_set_values :: "('m, 'a) mon_env \<Rightarrow> 'm sdp_engine \<Rightarrow> 'm sdp_engine \<times> error option" where
  "sdp_cleanup_after_set_values E s =
     (let s1 = s\<lparr>known_moments_name_dict := name_dict (name E) (known_moments s),
                 semiknown_moments_name_dict :=
                   name_dict (name E) (map (\<lambda>(mon, value, unknown). (mon, value, name E unknown))
                                           (semiknown_moments s))\<rparr>;
          s2 = (if supports_problem s1
                then (let (lower, known) =
                            bounds_from_support (nonzero_known_monomials (known_moments s1))
                              (moment_lowerbounds s1, known_moments s1);
                          (lower_names, known_names) =
                            bounds_from_support (nonzero_known_monomials (known_moments_name_dict s1))
                              (moment_lowerbounds_name_dict s1, known_moments_name_dict s1)
                      in s1\<lparr>moment_lowerbounds := lower, known_moments := known,
                            semiknown_moments := [],
                            moment_lowerbounds_name_dict := lower_names,
                            known_moments_name_dict := known_names,
                            semiknown_moments_name_dict := []\<rparr>)
                else s1)
      in update_objective E (update_physical_lowerbounds E s2))"

section \<open>The atomic registry of the LP engine\<close>



text \<open>\<^verbatim>\<open>key[self.lexorder_symmetries]\<close>: one row \<^verbatim>\<open>key[p]\<close> for every symmetry.\<close>

definition apply_perm :: "nat list \<Rightarrow> 'a list \<Rightarrow> 'a list" where
  "apply_perm p key = map ((!) key) p"











section \<open>The inflation symmetries of the generating set (SDP engine)\<close>

text \<open>
  A monomial of the SDP engine is a 2D array of dtype \<^verbatim>\<open>uint8\<close>: one row
  \<open>(party, copy_1, \<dots>, copy_S, setting, outcome)\<close> per operator.
  \<^verbatim>\<open>from_2dndarray\<close> (InflationSDP.py, lines 276-277) is the byte string of the array, the
  key under which monomials are looked up.
\<close>

type_synonym monomial = "nat list list"

definition from_2dndarray :: "monomial \<Rightarrow> nat list" where
  "from_2dndarray array2d = map (\<lambda>x. x mod 256) (concat array2d)"

text \<open>\<^verbatim>\<open>itertools.permutations\<close> of a list: every arrangement, in the order of the
  positions chosen, which for \<^verbatim>\<open>range(k)\<close> is the lexicographic order.\<close>

primrec arrangements :: "nat \<Rightarrow> 'a list \<Rightarrow> 'a list list" where
  "arrangements 0 xs = [[]]"
| "arrangements (Suc n) xs =
     concat (map (\<lambda>i. map ((#) (xs ! i)) (arrangements n (take i xs @ drop (Suc i) xs))) [0..<length xs])"

definition permutations :: "'a list \<Rightarrow> 'a list list" where
  "permutations xs = arrangements (length xs) xs"

text \<open>
  Modelled from the spec: \<^verbatim>\<open>find_permutation\<close> (\<^verbatim>\<open>general_tools.py\<close>) is not part of the
  sources at hand. By section 4.H, step 2, the permutation of the generator indices
  induced by a symmetry is found by looking up each permuted monomial among the
  original ones, and there is none when the generating set is not closed under the
  symmetry: the permuted list must be a rearrangement of the original one.
\<close>

fun index_of :: "'a \<Rightarrow> 'a list \<Rightarrow> nat" where
  "index_of x [] = 0"
| "index_of x (y # ys) = (if x = y then 0 else Suc (index_of x ys))"

definition find_permutation :: "'a list \<Rightarrow> 'a list \<Rightarrow> error + nat list" where
  "find_permutation list_permuted list_original =
     (if length list_permuted = length list_original \<and> set list_permuted = set list_original
      then Inr (map (\<lambda>x. index_of x list_original) list_permuted)
      else Inl (Exception ''The two lists are not permutations of one another''))"

text \<open>
  The pairs the loop of \<^verbatim>\<open>_calculate_inflation_symmetries\<close> runs over (InflationSDP.py,
  lines 1845-1848): \<^verbatim>\<open>sorted\<close> of every source with every permutation of its copies.
  \<^verbatim>\<open>inflevel[source]\<close> raises for a source without a level.
\<close>

definition source_permutations :: "nat \<Rightarrow> nat list \<Rightarrow> error + (nat \<times> nat list) list" where
  "source_permutations n_sources inflevel =
     (if \<forall>source \<in> set [0..<n_sources]. source < length inflevel
      then Inr (sort (concat (map (\<lambda>source. map (Pair source) (permutations [0..<inflevel ! source]))
                                  [0..<n_sources])))
      else Inl IndexError)"

text \<open>
  The body of the loop (lines 1851-1865). \<^verbatim>\<open>apply_source_permutation_coord_input\<close>
  (\<^verbatim>\<open>general_tools.py\<close>), which relabels the copies of a source in every generating
  monomial and canonicalises the result, is the parameter \<open>app\<close>; it is called outside
  the \<^verbatim>\<open>try\<close>, so what it raises leaves the method. What \<^verbatim>\<open>find_permutation\<close> raises
  is caught: the symmetry is not appended, and a warning is issued when
  \<^verbatim>\<open>self.verbose > 0\<close>. The second component of the state is the list of warnings.
\<close>

fun symmetries_loop ::
  "(monomial list \<Rightarrow> nat \<Rightarrow> nat list \<Rightarrow> error + monomial list) \<Rightarrow> int \<Rightarrow> monomial list \<Rightarrow>
   (nat \<times> nat list) list \<Rightarrow> nat list list \<times> string list \<Rightarrow> error + nat list list \<times> string list"
where
  "symmetries_loop app verbose generating_monomials [] (inflation_symmetries, warnings) =
     Inr (inflation_symmetries, warnings)"
| "symmetries_loop app verbose generating_monomials ((source, permutation) # rest)
     (inflation_symmetries, warnings) =
     (case app generating_monomials source permutation of
        Inl e \<Rightarrow> Inl e
      | Inr permuted_cols_ind \<Rightarrow>
          (case find_permutation (map from_2dndarray permuted_cols_ind)
                  (map from_2dndarray generating_monomials) of
             Inr total_perm \<Rightarrow>
               symmetries_loop app verbose generating_monomials rest
                 (inflation_symmetries @ [total_perm], warnings)
           | Inl e \<Rightarrow>
               symmetries_loop app verbose generating_monomials rest
                 (inflation_symmetries,
                  if verbose > 0
                  then warnings @ [''The generating set is not closed under source swaps.Some symmetries will not be implemented.'']
                  else warnings)))"

text \<open>\<^verbatim>\<open>np.unique(rows, axis=0)\<close>: the distinct rows in ascending lexicographic order.\<close>

definition unique_rows :: "nat list list \<Rightarrow> nat list list" where
  "unique_rows rows = remdups_adj (sort rows)"

text \<open>\<^verbatim>\<open>InflationSDP._calculate_inflation_symmetries\<close> (lines 1826-1867).\<close>

definition calculate_inflation_symmetries ::
  "(monomial list \<Rightarrow> nat \<Rightarrow> nat list \<Rightarrow> error + monomial list) \<Rightarrow> int \<Rightarrow> nat \<Rightarrow> nat list \<Rightarrow>
   monomial list \<Rightarrow> error + nat list list \<times> string list"
where
  "calculate_inflation_symmetries app verbose n_sources inflevel generating_monomials =
     (case source_permutations n_sources inflevel of
        Inl e \<Rightarrow> Inl e
      | Inr pairs \<Rightarrow>
          (case symmetries_loop app verbose generating_monomials pairs ([], []) of
             Inl e \<Rightarrow> Inl e
           | Inr (inflation_symmetries, warnings) \<Rightarrow> Inr (unique_rows inflation_symmetries, warnings)))"

text \<open>What one iteration of the loop finds: the induced permutation of the generating
  set, or the exception that \<^verbatim>\<open>find_permutation\<close> raises.\<close>

definition induced_permutation ::
  "(monomial list \<Rightarrow> nat \<Rightarrow> nat list \<Rightarrow> error + monomial list) \<Rightarrow> monomial list \<Rightarrow> nat \<times> nat list \<Rightarrow> error + nat list"
where
  "induced_permutation app generating_monomials sp =
     (case app generating_monomials (fst sp) (snd sp) of
        Inl e \<Rightarrow> Inl e
      | Inr permuted_cols_ind \<Rightarrow>
          find_permutation (map from_2dndarray permuted_cols_ind) (map from_2dndarray generating_monomials))"

section \<open>The generating set of the SDP engine\<close>

text \<open>
  The scenario, as \<^verbatim>\<open>InflationSDP.__init__\<close> copies it from the \<^verbatim>\<open>InflationProblem\<close>:
  the names of the parties, the hypergraph (one row per source, one column per party),
  the inflation level of every source, the cardinalities, and the \<^verbatim>\<open>commuting\<close> flag.
\<close>

record scenario =
  names :: "string list"
  hypergraph :: "nat list list"
  inflation_levels :: "nat list"
  outcome_cardinalities :: "nat list"
  setting_cardinalities :: "nat list"
  commuting :: bool

text \<open>
  Modelled from the spec: \<^verbatim>\<open>generate_operators\<close> and \<^verbatim>\<open>to_numbers\<close>
  (\<^verbatim>\<open>general_tools.py\<close>) are not part of the sources at hand; the first makes the symbol of
  an operator, the second reads the symbol back as an array. By section 3 an operator is
  the tuple \<open>(party, copy_1, \<dots>, copy_S, setting, outcome)\<close>; the party is counted from
  1, as in the arrays of \<^verbatim>\<open>test_sdp.py\<close>. The symbol is not modelled: an operator is its
  tuple.
\<close>

type_synonym operator = "nat list"

definition generate_operators :: "nat list \<Rightarrow> nat list \<Rightarrow> operator list list" where
  "generate_operators outs_per_input prefix =
     map (\<lambda>i. map (\<lambda>out. prefix @ [i, out]) [0..<outs_per_input ! i]) [0..<length outs_per_input]"

text \<open>
  \<^verbatim>\<open>InflationSDP._generate_parties\<close> (InflationSDP.py, lines 1753-1806):
  \<^verbatim>\<open>measurements[p][c][i][o]\<close> for party \<open>p\<close>, copies \<open>c\<close>, setting \<open>i\<close>, outcome \<open>o\<close>.
  The copies of a party run over the product of \<^verbatim>\<open>range(level)\<close> of the sources that
  feed it, shifted to begin at 1, with 0 at the sources that do not. The last outcome is
  left out (Collins-Gisin). A hypergraph entry other than 0 or 1 raises.
\<close>

definition copy_indices :: "scenario \<Rightarrow> nat \<Rightarrow> nat list list" where
  "copy_indices S pos =
     map (\<lambda>inflation_indices. map (\<lambda>x. x + 1) inflation_indices)
       (product_lists (map (\<lambda>idx. [0..<inflation_levels S ! idx])
                        [idx \<leftarrow> [0..<length (hypergraph S)]. hypergraph S ! idx ! pos \<noteq> 0]))"

fun place_indices :: "nat list \<Rightarrow> nat list \<Rightarrow> nat list" where
  "place_indices [] inflation_indices = []"
| "place_indices (h # column) inflation_indices =
     (if h = 0 then 0 # place_indices column inflation_indices
      else (case inflation_indices of
              [] \<Rightarrow> 0 # place_indices column []
            | i # rest \<Rightarrow> i # place_indices column rest))"

definition generate_parties :: "scenario \<Rightarrow> error + operator list list list list" where
  "generate_parties S =
     (if length (setting_cardinalities S) \<noteq> length (outcome_cardinalities S)
      then Inl (AssertionError ''There is a different number of settings and outcomes'')
      else if \<exists>row \<in> set (hypergraph S). length row \<noteq> length (setting_cardinalities S)
      then Inl (AssertionError ''The hypergraph does not have as many columns as parties'')
      else if \<exists>row \<in> set (hypergraph S). \<exists>h \<in> set row. h \<noteq> 0 \<and> h \<noteq> 1
      then Inl (Exception ''You do not have a proper hypergraph'')
      else Inr (map (\<lambda>pos.
             map (\<lambda>inflation_indices.
                    generate_operators
                      (replicate (setting_cardinalities S ! pos) (outcome_cardinalities S ! pos - 1))
                      ((pos + 1) # place_indices (map (\<lambda>row. row ! pos) (hypergraph S)) inflation_indices))
                 (copy_indices S pos))
             [0..<min (length (names S)) (length (setting_cardinalities S))]))"

text \<open>\<^verbatim>\<open>flatten(self.measurements[party])\<close>: the operators of a party in one list.\<close>

definition flatten :: "'a list list list \<Rightarrow> 'a list" where
  "flatten xsss = concat (concat xsss)"

text \<open>
  Modelled from the spec: \<^verbatim>\<open>notcomm_from_lexorder\<close> (\<^verbatim>\<open>fast_npa.py\<close>) is not part of the
  sources at hand. By section 4.B two operators commute iff the commuting model is
  selected, or they belong to different parties, or their copies keep them apart; the
  matrix is symmetric with a zero diagonal. The third clause is taken as: they have
  different copies of every source that both consume. This is the reading under which
  the columns expected by \<^verbatim>\<open>test_sdp.py\<close> come out (lines 49-53 list both orders
  of \<open>B_1_1\<close> and \<open>B_1_2\<close>, one order of \<open>B_1_1\<close> and \<open>B_2_2\<close>; lines 144-156 name it
  "commutation of operators for nonoverlapping copies").
\<close>

definition copies :: "operator \<Rightarrow> nat list" where
  "copies op = butlast (butlast (tl op))"

definition notcomm :: "operator \<Rightarrow> operator \<Rightarrow> bool" where
  "notcomm a b \<longleftrightarrow>
     a \<noteq> b \<and> hd a = hd b \<and>
     (\<exists>(ca, cb) \<in> set (zip (copies a) (copies b)). ca \<noteq> 0 \<and> cb \<noteq> 0 \<and> ca = cb)"

text \<open>Orthogonality (section 4.C, rule 1): the same party, copies and setting, and
  distinct outcomes.\<close>

definition orthogonal :: "operator \<Rightarrow> operator \<Rightarrow> bool" where
  "orthogonal a b \<longleftrightarrow> butlast a = butlast b \<and> last a \<noteq> last b"

text \<open>
  Modelled from the spec: \<^verbatim>\<open>to_canonical\<close> (\<^verbatim>\<open>fast_npa.py\<close>) is not part of the sources
  at hand. Section 4.C gives the rewrite rules, applied to a fixed point: an adjacent
  orthogonal pair makes the monomial zero, an adjacent pair of identical operators
  collapses to one, and an adjacent pair that commutes and is out of order is swapped.
  The rank of an operator in the default lexicographic order is the order of the tuples.
  The rules are applied by inserting the operators one by one, from the right, into the
  canonical form of what follows them; \<open>None\<close> is the distinguished value zero.
\<close>

fun canonical_insert :: "operator \<Rightarrow> monomial \<Rightarrow> monomial option" where
  "canonical_insert x [] = Some [x]"
| "canonical_insert x (y # ys) =
     (if orthogonal x y then None
      else if x = y then Some (y # ys)
      else if \<not> notcomm x y \<and> y < x then map_option ((#) y) (canonical_insert x ys)
      else Some (x # y # ys))"

definition to_canonical :: "monomial \<Rightarrow> monomial option" where
  "to_canonical mon = foldr (\<lambda>x acc. case acc of None \<Rightarrow> None | Some ys \<Rightarrow> canonical_insert x ys) mon (Some [])"

text \<open>
  Modelled from the spec: \<^verbatim>\<open>mon_lexsorted\<close>, \<^verbatim>\<open>remove_projector_squares\<close> and
  \<^verbatim>\<open>mon_is_zero\<close> (\<^verbatim>\<open>fast_npa.py\<close>) are not part of the sources at hand. By section 4.C,
  in the commuting model canonicalisation is: sort, dedupe adjacent, annihilate on an
  adjacent outcome conflict.
\<close>

definition mon_lexsorted :: "monomial \<Rightarrow> monomial" where
  "mon_lexsorted mon = sort mon"

definition remove_projector_squares :: "monomial \<Rightarrow> monomial" where
  "remove_projector_squares mon = remdups_adj mon"

fun mon_is_zero :: "monomial \<Rightarrow> bool" where
  "mon_is_zero (x # y # rest) = (orthogonal x y \<or> mon_is_zero (y # rest))"
| "mon_is_zero mon = False"

text \<open>
  Modelled from the spec: \<^verbatim>\<open>to_name\<close> (\<^verbatim>\<open>fast_npa.py\<close>) is not part of the sources at
  hand. By section 6 an operator is spelled \<open>Party_copy_1_\<dots>_copy_S_setting_outcome\<close>,
  the names of the factors are joined by \<open>*\<close>, and the unit is \<open>1\<close>.
\<close>

text \<open>\<^verbatim>\<open>str\<close> of a natural number: its decimal digits.\<close>

fun str_nat :: "nat \<Rightarrow> string" where
  "str_nat n =
     (let digit = ''0123456789'' ! (n mod 10)
      in if n div 10 = 0 then [digit] else str_nat (n div 10) @ [digit])"

definition operator_name :: "string list \<Rightarrow> operator \<Rightarrow> string" where
  "operator_name party_names op = party_names ! (hd op - 1) @ concat (map (\<lambda>x. ''_'' @ str_nat x) (tl op))"

fun join_names :: "string list \<Rightarrow> string" where
  "join_names [] = ''''"
| "join_names [s] = s"
| "join_names (s # rest) = s @ ''*'' @ join_names rest"

definition to_name :: "monomial \<Rightarrow> string list \<Rightarrow> string" where
  "to_name mon party_names = (if mon = [] then ''1'' else join_names (map (operator_name party_names) mon))"

text \<open>
  \<^verbatim>\<open>InflationSDP._build_cols_from_specs\<close> (InflationSDP.py, lines 1684-1751). The state
  of the two nested loops is the list \<^verbatim>\<open>res\<close> and the set \<^verbatim>\<open>allvars\<close> of the names seen.
  The body for one product of measurement operators:
\<close>

definition add_monomial :: "scenario \<Rightarrow> operator list \<Rightarrow> monomial list \<times> string set \<Rightarrow> monomial list \<times> string set" where
  "add_monomial S monomial_factors st =
     (let canon = (if commuting S
                   then (let c = remove_projector_squares (mon_lexsorted monomial_factors)
                         in if mon_is_zero c then None else Some c)
                   else to_canonical monomial_factors)
      in case canon of
           None \<Rightarrow> st
         | Some c \<Rightarrow>
             if length c = length monomial_factors
             then (let name = to_name c (names S)
                   in if name \<notin> snd st then (fst st @ [c], insert name (snd st)) else st)
             else st)"

text \<open>The body for one block: the unit for the empty block, else every product of the
  operators of the parties of the block, by \<^verbatim>\<open>itertools.product\<close>. A party that is not
  in \<^verbatim>\<open>self.measurements\<close> raises.\<close>

definition add_block ::
  "scenario \<Rightarrow> operator list list list list \<Rightarrow> nat list \<Rightarrow> monomial list \<times> string set \<Rightarrow> error + monomial list \<times> string set"
where
  "add_block S measurements block st =
     (if block = [] then Inr (fst st @ [[]], insert ''1'' (snd st))
      else if \<exists>party \<in> set block. length measurements \<le> party then Inl IndexError
      else Inr (foldl (\<lambda>st monomial_factors. add_monomial S monomial_factors st) st
                  (product_lists (map (\<lambda>party. flatten (measurements ! party)) block))))"

fun build_cols_loop ::
  "scenario \<Rightarrow> operator list list list list \<Rightarrow> nat list list \<Rightarrow> monomial list \<times> string set \<Rightarrow> error + monomial list \<times> string set"
where
  "build_cols_loop S measurements [] st = Inr st"
| "build_cols_loop S measurements (block # col_specs) st =
     (case add_block S measurements block st of
        Inl e \<Rightarrow> Inl e
      | Inr st' \<Rightarrow> build_cols_loop S measurements col_specs st')"

definition build_cols_from_specs :: "scenario \<Rightarrow> nat list list \<Rightarrow> error + monomial list" where
  "build_cols_from_specs S col_specs =
     (case generate_parties S of
        Inl e \<Rightarrow> Inl e
      | Inr measurements \<Rightarrow> map_sum id fst (build_cols_loop S measurements col_specs ([], {})))"

text \<open>
  The branch of \<^verbatim>\<open>InflationSDP.build_columns\<close> for a specification \<^verbatim>\<open>'npaN'\<close>
  (lines 1508-1525), \<open>N\<close> being the level that \<^verbatim>\<open>int(column_specification[3:])\<close> reads:
  the empty block, then for every length up to the level the tuples of parties in
  non-decreasing order. The lexicographic order of the engine is always the default one,
  so the columns are not sorted again; the columns are returned as they are built.
\<close>

definition npa_col_specs :: "nat \<Rightarrow> nat \<Rightarrow> nat \<Rightarrow> nat list list" where
  "npa_col_specs nr_parties npa_level max_monomial_length =
     (let max_length = (if max_monomial_length > 0 \<and> max_monomial_length < npa_level
                        then max_monomial_length else npa_level)
      in [] # concat (map (\<lambda>len. [a \<leftarrow> product_lists (replicate len [0..<nr_parties]). sorted a])
                        [1..<max_length + 1]))"

definition build_columns_npa :: "scenario \<Rightarrow> nat \<Rightarrow> nat \<Rightarrow> error + monomial list" where
  "build_columns_npa S npa_level max_monomial_length =
     build_cols_from_specs S (npa_col_specs (length (names S)) npa_level max_monomial_length)"

section \<open>Symmetrising the moment matrix (SDP engine)\<close>









text \<open>
  The symmetries that the passes apply between them: each pass composes the symmetries
  applied so far with its own permutation, so after all passes an entry is the minimum
  over the products of the sublists of the listed permutations, in their order.
\<close>

definition subproducts :: "nat \<Rightarrow> nat list list \<Rightarrow> nat list list" where
  "subproducts n perms = foldl (\<lambda>sp permutation. sp @ map (apply_perm permutation) sp) [[0..<n]] perms"



definition index_lists :: "nat \<Rightarrow> nat list list \<Rightarrow> bool" where
  "index_lists n perms \<longleftrightarrow> (\<forall>p \<in> set perms. length p = n \<and> (\<forall>i \<in> set p. i < n))"



text \<open>
  The list of symmetries is closed when a listed permutation applied after a symmetry
  reached by the passes is again one of them. The list computed by
  \<^verbatim>\<open>_calculate_inflation_symmetries\<close> holds, for each source, every permutation of its
  copies that maps the generating set to itself; the products in the order of the list
  are then the whole group.
\<close>

definition products_closed :: "nat \<Rightarrow> nat list list \<Rightarrow> bool" where
  "products_closed n perms \<longleftrightarrow>
     (\<forall>p \<in> set perms. \<forall>s \<in> set (subproducts n perms). apply_perm p s \<in> set (subproducts n perms))"


text \<open>The permutations generated by the listed ones: the identity and every product.\<close>

inductive generated :: "nat \<Rightarrow> nat list list \<Rightarrow> nat list \<Rightarrow> bool" for n perms where
  identity: "generated n perms [0..<n]"
| product: "generated n perms s \<Longrightarrow> p \<in> set perms \<Longrightarrow> generated n perms (apply_perm p s)"
section \<open>Concrete inputs\<close>

text \<open>A small engine whose compound monomials are their names, an LP object of a
  supports problem and an SDP object with an objective, used to run the definitions.\<close>

definition demo_env :: "(string, unit) mon_env" where
  "demo_env = \<lparr>One = ''1'', Zero = ''0'', name = (\<lambda>m. m), from_atoms = (\<lambda>as. ''pA''),
     from_symbolic = (\<lambda>ops. Inr (concat ops)), from_array = (\<lambda>arr. Inr ''pA''),
     from_str = (\<lambda>s. Inr s), unpack = (\<lambda>m. Inl TypeError)\<rparr>"

definition demo_lp :: "string lp_engine" where
  "demo_lp = \<lparr>supports_problem = True, known_moments = [(''1'', 1), (''pA'', 0), (''pB'', 1 / 2)],
     semiknown_moments = [(''pA*pC'', 1 / 2, ''pC'')], moment_lowerbounds = [], moment_upperbounds = [],
     solution_present = False, status = ''Not yet solved''\<rparr>"

definition demo_sdp :: "string sdp_engine" where
  "demo_sdp = \<lparr>supports_problem = False, known_moments = [(''1'', 1), (''pB'', 1 / 2)],
     semiknown_moments = [(''pA*pC'', 1 / 2, ''pC'')], moment_lowerbounds = [], moment_upperbounds = [],
     objective = [(''1'', 0), (''pB'', 4), (''pA*pC'', 3)], processed_objective = [],
     processed_moment_lowerbounds = [], known_moments_name_dict = [],
     semiknown_moments_name_dict = [], moment_lowerbounds_name_dict = [],
     processed_moment_lowerbounds_name_dict = [], objective_as_name_dict = []\<rparr>"

definition demo_sdp_supports :: "string sdp_engine" where
  "demo_sdp_supports = demo_sdp\<lparr>supports_problem := True\<rparr>"



text \<open>One source with two copies and a generating set that holds the operator of copy 1
  but not that of copy 2. The relabelling exchanges the copy index of a source in every
  operator that has one; the monomials have one operator, so nothing is left to
  canonicalise.\<close>

definition relabel_source :: "monomial list \<Rightarrow> nat \<Rightarrow> nat list \<Rightarrow> error + monomial list" where
  "relabel_source cols source permutation =
     Inr (map (map (\<lambda>op. if op ! (1 + source) = 0 then op
                          else op[1 + source := permutation ! (op ! (1 + source) - 1) + 1])) cols)"

definition demo_columns :: "monomial list" where
  "demo_columns = [[], [[1, 1, 0, 0]]]"

text \<open>The bilocal scenario: three parties in a line, two sources, two copies of each,
  binary outcomes and one setting.\<close>

definition bilocal :: "bool \<Rightarrow> scenario" where
  "bilocal c = \<lparr>names = [''A'', ''B'', ''C''], hypergraph = [[1, 1, 0], [0, 1, 1]],
     inflation_levels = [2, 2], outcome_cardinalities = [2, 2, 2],
     setting_cardinalities = [1, 1, 1], commuting = c\<rparr>"




section \<open>Theorems\<close>

subsection \<open>Numbers\<close>


lemma isclose_0_not_1: "isclose x 0 \<Longrightarrow> \<not> isclose x 1"
  by (simp add: isclose_def)

text \<open>
  Claim C10. A plain number given where a monomial is expected is accepted only when it
  is a reserved constant. In the SDP engine a number close to 1 gives the unit, a number
  close to 0 gives the zero monomial, any other number raises. In the LP engine a number
  close to 1 gives the unit and every other number, 0 included, raises.
\<close>

theorem sanitise_number:
  "(isclose x 1 \<longrightarrow> sdp_sanitise_monomial E (InReal x) = Inr (One E)) \<and>
   (isclose x 0 \<longrightarrow> sdp_sanitise_monomial E (InReal x) = Inr (Zero E)) \<and>
   (\<not> isclose x 1 \<and> \<not> isclose x 0 \<longrightarrow> isl (sdp_sanitise_monomial E (InReal x))) \<and>
   (isclose x 1 \<longrightarrow> lp_sanitise_monomial E (InReal x) = Inr (One E)) \<and>
   (\<not> isclose x 1 \<longrightarrow> isl (lp_sanitise_monomial E (InReal x))) \<and>
   isl (lp_sanitise_monomial E (InReal 0))"
  using isclose_0_not_1 [of x] by (auto simp: isclose_def)


theorem sanitise_number_witness:
  "sdp_sanitise_monomial demo_env (InReal 1) = Inr ''1'' \<and>
   sdp_sanitise_monomial demo_env (InReal 0) = Inr ''0'' \<and>
   isl (sdp_sanitise_monomial demo_env (InReal (1 / 2))) \<and>
   lp_sanitise_monomial demo_env (InReal 1) = Inr ''1'' \<and>
   isl (lp_sanitise_monomial demo_env (InReal (1 / 2)))"
proof -
  have c1: "isclose 1 1" and c0: "isclose 0 0" and h1: "\<not> isclose (1 / 2) 1" and h0: "\<not> isclose (1 / 2) 0"
    by (simp_all add: isclose_def)
  have o: "One demo_env = ''1''" and z: "Zero demo_env = ''0''" by (simp_all add: demo_env_def)
  from sanitise_number [of 1 demo_env] c1 o
  have a: "sdp_sanitise_monomial demo_env (InReal 1) = Inr ''1''"
    and d: "lp_sanitise_monomial demo_env (InReal 1) = Inr ''1''" by metis+
  from sanitise_number [of 0 demo_env] c0 z
  have b: "sdp_sanitise_monomial demo_env (InReal 0) = Inr ''0''" by metis
  from sanitise_number [of "1 / 2" demo_env] h1 h0
  have c: "isl (sdp_sanitise_monomial demo_env (InReal (1 / 2)))"
    and e: "isl (lp_sanitise_monomial demo_env (InReal (1 / 2)))" by blast+
  from a b c d e show ?thesis by blast
qed

subsection \<open>Bounds\<close>














subsection \<open>Supports problems and the objective\<close>

lemma bounds_from_support_lower:
  "map_of (fst (bounds_from_support mons (lower, known))) m = (if m \<in> set mons then Some 1 else map_of lower m)"
  by (induction mons arbitrary: lower known) (auto simp: update_conv')

lemma bounds_from_support_known:
  "map_of (snd (bounds_from_support mons (lower, known))) m = (if m \<in> set mons then None else map_of known m)"
  by (induction mons arbitrary: lower known) (auto simp: delete_conv')

lemma nonzero_known_iff:
  "distinct (map fst known) \<Longrightarrow>
   m \<in> set (nonzero_known_monomials known) \<longleftrightarrow> (\<exists>v. map_of known m = Some v \<and> \<not> isclose v 0)"
  by (auto simp: nonzero_known_monomials_def)

lemma update_objective_valuation:
  "known_moments (fst (update_objective E s)) = known_moments s"
  "semiknown_moments (fst (update_objective E s)) = semiknown_moments s"
  "moment_lowerbounds (fst (update_objective E s)) = moment_lowerbounds s"
  by (simp_all add: update_objective_def Let_def split: prod.split option.split)

lemma update_physical_lowerbounds_valuation:
  "known_moments (update_physical_lowerbounds E s) = known_moments s"
  "semiknown_moments (update_physical_lowerbounds E s) = semiknown_moments s"
  "moment_lowerbounds (update_physical_lowerbounds E s) = moment_lowerbounds s"
  by (simp_all add: update_physical_lowerbounds_def Let_def split: prod.split)

lemma sdp_cleanup_supports:
  assumes "supports_problem s"
  shows "known_moments (fst (sdp_cleanup_after_set_values E s)) =
           snd (bounds_from_support (nonzero_known_monomials (known_moments s)) (moment_lowerbounds s, known_moments s))"
    and "moment_lowerbounds (fst (sdp_cleanup_after_set_values E s)) =
           fst (bounds_from_support (nonzero_known_monomials (known_moments s)) (moment_lowerbounds s, known_moments s))"
    and "semiknown_moments (fst (sdp_cleanup_after_set_values E s)) = []"
  using assms
  by (simp_all add: sdp_cleanup_after_set_values_def Let_def update_objective_valuation
        update_physical_lowerbounds_valuation split: prod.split)

lemma lp_cleanup_supports:
  assumes "supports_problem t"
  shows "known_moments (lp_cleanup_after_set_values t) =
           snd (bounds_from_support (nonzero_known_monomials (known_moments t)) (moment_lowerbounds t, known_moments t))"
    and "moment_lowerbounds (lp_cleanup_after_set_values t) =
           fst (bounds_from_support (nonzero_known_monomials (known_moments t)) (moment_lowerbounds t, known_moments t))"
    and "semiknown_moments (lp_cleanup_after_set_values t) = []"
  using assms
  by (simp_all add: lp_cleanup_after_set_values_def Let_def split: prod.split)

text \<open>
  Claim C5. In a supports problem, \<^verbatim>\<open>cleanup_after_set_values\<close> (SDP) and
  \<^verbatim>\<open>_cleanup_after_set_values\<close> (LP), with which every \<^verbatim>\<open>set_values\<close> ends, remove
  every known moment whose value is not close to 0 from the known moments and give it
  the lower bound 1, leave the known moments whose value is close to 0 as they are, and
  empty the semiknown relations.
\<close>

theorem supports_cleanup:
  assumes "supports_problem s" and "distinct (map fst (known_moments s))"
    and "supports_problem t" and "distinct (map fst (known_moments t))"
  shows
  "(\<forall>m v. map_of (known_moments s) m = Some v \<longrightarrow>
      (if isclose v 0 then map_of (known_moments (fst (sdp_cleanup_after_set_values E s))) m = Some v
       else map_of (known_moments (fst (sdp_cleanup_after_set_values E s))) m = None \<and>
            map_of (moment_lowerbounds (fst (sdp_cleanup_after_set_values E s))) m = Some 1)) \<and>
   semiknown_moments (fst (sdp_cleanup_after_set_values E s)) = [] \<and>
   (\<forall>m v. map_of (known_moments t) m = Some v \<longrightarrow>
      (if isclose v 0 then map_of (known_moments (lp_cleanup_after_set_values t)) m = Some v
       else map_of (known_moments (lp_cleanup_after_set_values t)) m = None \<and>
            map_of (moment_lowerbounds (lp_cleanup_after_set_values t)) m = Some 1)) \<and>
   semiknown_moments (lp_cleanup_after_set_values t) = []"
  using assms
  by (simp add: sdp_cleanup_supports lp_cleanup_supports bounds_from_support_lower
        bounds_from_support_known nonzero_known_iff)

theorem supports_cleanup_witness:
  "map_of (known_moments (fst (sdp_cleanup_after_set_values demo_env demo_sdp_supports))) ''pB'' = None \<and>
   map_of (moment_lowerbounds (fst (sdp_cleanup_after_set_values demo_env demo_sdp_supports))) ''pB'' = Some 1 \<and>
   semiknown_moments (fst (sdp_cleanup_after_set_values demo_env demo_sdp_supports)) = [] \<and>
   map_of (known_moments (lp_cleanup_after_set_values demo_lp)) ''pA'' = Some 0 \<and>
   map_of (known_moments (lp_cleanup_after_set_values demo_lp)) ''pB'' = None \<and>
   map_of (moment_lowerbounds (lp_cleanup_after_set_values demo_lp)) ''pB'' = Some 1 \<and>
   semiknown_moments (lp_cleanup_after_set_values demo_lp) = []"
proof -
  have a: "supports_problem demo_sdp_supports" "distinct (map fst (known_moments demo_sdp_supports))"
    "supports_problem demo_lp" "distinct (map fst (known_moments demo_lp))"
    by (simp_all add: demo_sdp_supports_def demo_sdp_def demo_lp_def)
  note T = supports_cleanup [OF a, of demo_env]
  have far: "\<not> isclose (1 / 2) 0" and near: "isclose 0 0" by (simp_all add: isclose_def)
  have k1: "map_of (known_moments demo_sdp_supports) ''pB'' = Some (1 / 2)"
    and k2: "map_of (known_moments demo_lp) ''pB'' = Some (1 / 2)"
    and k3: "map_of (known_moments demo_lp) ''pA'' = Some 0"
    by (simp_all add: demo_sdp_supports_def demo_sdp_def demo_lp_def)
  from T [THEN conjunct1, THEN spec, THEN spec, THEN mp, OF k1] far
  have s1: "map_of (known_moments (fst (sdp_cleanup_after_set_values demo_env demo_sdp_supports))) ''pB'' = None \<and>
      map_of (moment_lowerbounds (fst (sdp_cleanup_after_set_values demo_env demo_sdp_supports))) ''pB'' = Some 1"
    by simp
  note s2 = T [THEN conjunct2, THEN conjunct1]
  from T [THEN conjunct2, THEN conjunct2, THEN conjunct1, THEN spec, THEN spec, THEN mp, OF k3] near
  have l1: "map_of (known_moments (lp_cleanup_after_set_values demo_lp)) ''pA'' = Some 0" by simp
  from T [THEN conjunct2, THEN conjunct2, THEN conjunct1, THEN spec, THEN spec, THEN mp, OF k2] far
  have l2: "map_of (known_moments (lp_cleanup_after_set_values demo_lp)) ''pB'' = None \<and>
      map_of (moment_lowerbounds (lp_cleanup_after_set_values demo_lp)) ''pB'' = Some 1" by simp
  note l3 = T [THEN conjunct2, THEN conjunct2, THEN conjunct2]
  from s1 s2 l1 l2 l3 show ?thesis by simp
qed

text \<open>
  Claim C6 at the failing input: the objective \<open>4 pB + 3 pA*pC\<close> with \<open>pB = 1/2\<close>
  known and \<open>pA*pC = 1/2 pC\<close> semiknown. The known monomial is substituted (the unit
  gets \<open>4 * 1/2\<close>); the semiknown one is not: the loop over the stored tuple raises
  \<^verbatim>\<open>TypeError\<close>, \<open>pA*pC\<close> stays and \<open>pC\<close> gets no coefficient.
\<close>

theorem update_objective_semiknown_raises:
  "snd (update_objective demo_env demo_sdp) = Some TypeError \<and>
   processed_objective (fst (update_objective demo_env demo_sdp)) = [(''1'', 2), (''pA*pC'', 3)]"
  by (simp add: update_objective_def demo_env_def demo_sdp_def Let_def)


subsection \<open>The atomic registry\<close>





















subsection \<open>Inflation symmetries of the generating set\<close>

lemma symmetries_loop_result:
  assumes "\<forall>sp \<in> set pairs. \<exists>permuted. app cols (fst sp) (snd sp) = Inr permuted"
  shows "symmetries_loop app verbose cols pairs (syms, warns) =
     Inr (syms @ map (\<lambda>sp. projr (induced_permutation app cols sp))
                   [sp \<leftarrow> pairs. \<not> isl (induced_permutation app cols sp)],
          warns @ (if verbose > 0
                   then map (\<lambda>sp. ''The generating set is not closed under source swaps.Some symmetries will not be implemented.'')
                          [sp \<leftarrow> pairs. isl (induced_permutation app cols sp)]
                   else []))"
  using assms
proof (induction pairs arbitrary: syms warns)
  case Nil
  show ?case by simp
next
  case (Cons sp pairs)
  obtain source permutation where sp: "sp = (source, permutation)" by (cases sp)
  from Cons.prems sp obtain permuted where app: "app cols source permutation = Inr permuted" by auto
  from Cons.prems have rest: "\<forall>sp \<in> set pairs. \<exists>permuted. app cols (fst sp) (snd sp) = Inr permuted"
    by simp
  show ?case
  proof (cases "find_permutation (map from_2dndarray permuted) (map from_2dndarray cols)")
    case (Inl e)
    with app sp have "isl (induced_permutation app cols sp)" by (simp add: induced_permutation_def)
    with Inl app sp Cons.IH [OF rest] show ?thesis by simp
  next
    case (Inr total_perm)
    with app sp have "induced_permutation app cols sp = Inr total_perm"
      by (simp add: induced_permutation_def)
    with Inr app sp Cons.IH [OF rest] show ?thesis by simp
  qed
qed

lemma set_unique_rows: "set (unique_rows rows) = set rows"
  by (simp add: unique_rows_def)

text \<open>
  Claim C7, as amended. The warning depends on the verbosity. Whenever the relabelling
  itself does not raise, \<^verbatim>\<open>_calculate_inflation_symmetries\<close> returns normally; the
  symmetries it returns are exactly the permutations induced by the pairs of a source
  and a permutation of its copies under which the generating set is closed, the others
  being dropped; and one warning is issued for every dropped pair when
  \<^verbatim>\<open>verbose > 0\<close>, none otherwise.
\<close>

theorem symmetries_dropped_not_fatal:
  assumes "source_permutations n_sources inflevel = Inr pairs"
    and "\<forall>sp \<in> set pairs. \<exists>permuted. app cols (fst sp) (snd sp) = Inr permuted"
  shows "\<exists>syms warns.
     calculate_inflation_symmetries app verbose n_sources inflevel cols = Inr (syms, warns) \<and>
     set syms = {perm. \<exists>sp \<in> set pairs. induced_permutation app cols sp = Inr perm} \<and>
     length warns = (if verbose > 0 then length [sp \<leftarrow> pairs. isl (induced_permutation app cols sp)] else 0)"
proof -
  let ?found = "map (\<lambda>sp. projr (induced_permutation app cols sp))
                   [sp \<leftarrow> pairs. \<not> isl (induced_permutation app cols sp)]"
  let ?warns = "if verbose > 0
                   then map (\<lambda>sp. ''The generating set is not closed under source swaps.Some symmetries will not be implemented.'')
                          [sp \<leftarrow> pairs. isl (induced_permutation app cols sp)]
                   else []"
  from symmetries_loop_result [where app = app and cols = cols and pairs = pairs
        and verbose = verbose and syms = "[]" and warns = "[]", OF assms(2)] assms(1)
  have r: "calculate_inflation_symmetries app verbose n_sources inflevel cols = Inr (unique_rows ?found, ?warns)"
    by (simp add: calculate_inflation_symmetries_def)
  have "set ?found = {perm. \<exists>sp \<in> set pairs. induced_permutation app cols sp = Inr perm}"
  proof (intro set_eqI iffI)
    fix perm assume "perm \<in> set ?found"
    then obtain sp where "sp \<in> set pairs" "\<not> isl (induced_permutation app cols sp)"
      "perm = projr (induced_permutation app cols sp)" by auto
    then show "perm \<in> {perm. \<exists>sp \<in> set pairs. induced_permutation app cols sp = Inr perm}"
      by (cases "induced_permutation app cols sp") auto
  next
    fix perm assume "perm \<in> {perm. \<exists>sp \<in> set pairs. induced_permutation app cols sp = Inr perm}"
    then obtain sp where "sp \<in> set pairs" "induced_permutation app cols sp = Inr perm" by auto
    then show "perm \<in> set ?found" by force
  qed
  then have s: "set (unique_rows ?found) = {perm. \<exists>sp \<in> set pairs. induced_permutation app cols sp = Inr perm}"
    by (simp only: set_unique_rows)
  have l: "length ?warns = (if verbose > 0 then length [sp \<leftarrow> pairs. isl (induced_permutation app cols sp)] else 0)"
    by simp
  from r s l show ?thesis by blast
qed

lemma demo_pairs: "source_permutations 1 [2] = Inr [(0, [0, 1]), (0, [1, 0])]"
  by code_simp

theorem symmetries_dropped_not_fatal_witness:
  "\<exists>syms warns. calculate_inflation_symmetries relabel_source 1 1 [2] demo_columns = Inr (syms, warns) \<and>
     set syms = {[0, 1]} \<and> length warns = 1"
proof -
  have total: "\<forall>sp \<in> set [(0::nat, [0::nat, 1]), (0, [1, 0])].
      \<exists>permuted. relabel_source demo_columns (fst sp) (snd sp) = Inr permuted"
    by (simp add: relabel_source_def)
  have i0: "induced_permutation relabel_source demo_columns (0, [0, 1]) = Inr [0, 1]"
    and i1: "isl (induced_permutation relabel_source demo_columns (0, [1, 0]))" by code_simp+
  have found: "{perm. \<exists>sp \<in> set [(0::nat, [0::nat, 1]), (0, [1, 0])].
      induced_permutation relabel_source demo_columns sp = Inr perm} = {[0, 1]}"
    using i0 i1 by auto
  have count: "length [sp \<leftarrow> [(0::nat, [0::nat, 1]), (0, [1, 0])].
      isl (induced_permutation relabel_source demo_columns sp)] = 1"
    using i0 i1 by simp
  from symmetries_dropped_not_fatal [where app = relabel_source and cols = demo_columns
        and verbose = 1, OF demo_pairs total] show ?thesis
    unfolding found count by simp
qed

text \<open>
  Claim C7 as stated fails at the default verbosity 0: the generating set is not closed
  under the swap of the two copies, the swap is dropped, and no warning is issued.
\<close>

theorem silent_drop_counterexample:
  "isl (induced_permutation relabel_source demo_columns (0, [1, 0])) \<and>
   calculate_inflation_symmetries relabel_source 0 1 [2] demo_columns = Inr ([[0, 1]], [])"
  by code_simp


subsection \<open>The generating set of the bilocal scenario\<close>

text \<open>The columns built for \<^verbatim>\<open>'npa2'\<close> with non-commuting operators are, name by name
  and in order, the columns that \<^verbatim>\<open>test_sdp.py\<close> expects (\<^verbatim>\<open>actual_cols\<close>, lines 41-58).\<close>

lemma bilocal_npa2_names:
  "map_sum id (map (\<lambda>m. to_name m (names (bilocal False)))) (build_columns_npa (bilocal False) 2 0) =
   Inr [''1'', ''A_1_0_0_0'', ''A_2_0_0_0'', ''B_1_1_0_0'', ''B_1_2_0_0'',
      ''B_2_1_0_0'', ''B_2_2_0_0'', ''C_0_1_0_0'', ''C_0_2_0_0'',
      ''A_1_0_0_0*A_2_0_0_0'', ''A_1_0_0_0*B_1_1_0_0'',
      ''A_1_0_0_0*B_1_2_0_0'', ''A_1_0_0_0*B_2_1_0_0'',
      ''A_1_0_0_0*B_2_2_0_0'', ''A_2_0_0_0*B_1_1_0_0'',
      ''A_2_0_0_0*B_1_2_0_0'', ''A_2_0_0_0*B_2_1_0_0'',
      ''A_2_0_0_0*B_2_2_0_0'', ''A_1_0_0_0*C_0_1_0_0'',
      ''A_1_0_0_0*C_0_2_0_0'', ''A_2_0_0_0*C_0_1_0_0'',
      ''A_2_0_0_0*C_0_2_0_0'', ''B_1_1_0_0*B_1_2_0_0'',
      ''B_1_1_0_0*B_2_1_0_0'', ''B_1_1_0_0*B_2_2_0_0'',
      ''B_1_2_0_0*B_1_1_0_0'', ''B_1_2_0_0*B_2_1_0_0'',
      ''B_1_2_0_0*B_2_2_0_0'', ''B_2_1_0_0*B_1_1_0_0'',
      ''B_2_1_0_0*B_2_2_0_0'', ''B_2_2_0_0*B_1_2_0_0'',
      ''B_2_2_0_0*B_2_1_0_0'', ''B_1_1_0_0*C_0_1_0_0'',
      ''B_1_1_0_0*C_0_2_0_0'', ''B_1_2_0_0*C_0_1_0_0'',
      ''B_1_2_0_0*C_0_2_0_0'', ''B_2_1_0_0*C_0_1_0_0'',
      ''B_2_1_0_0*C_0_2_0_0'', ''B_2_2_0_0*C_0_1_0_0'',
      ''B_2_2_0_0*C_0_2_0_0'', ''C_0_1_0_0*C_0_2_0_0'']"
  by code_simp



subsection \<open>The symmetrised moment matrix\<close>




lemma subproducts_snoc:
  "subproducts n (ps @ [p]) = subproducts n ps @ map (apply_perm p) (subproducts n ps)"
  by (simp add: subproducts_def)

lemma subproducts_Nil: "subproducts n [] = [[0..<n]]"
  by (simp add: subproducts_def)

lemma identity_in_subproducts: "[0..<n] \<in> set (subproducts n ps)"
  by (induction ps rule: rev_induct) (simp_all add: subproducts_Nil subproducts_snoc)


lemma subproducts_valid:
  assumes "index_lists n ps" and "s \<in> set (subproducts n ps)"
  shows "length s = n \<and> (\<forall>i \<in> set s. i < n)"
  using assms
proof (induction ps arbitrary: s rule: rev_induct)
  case Nil
  then show ?case by (simp add: subproducts_Nil)
next
  case (snoc p ps)
  from snoc.prems(1) have ps: "index_lists n ps" and p: "length p = n" "\<forall>i \<in> set p. i < n"
    by (auto simp: index_lists_def)
  from snoc.prems(2) consider "s \<in> set (subproducts n ps)"
    | s0 where "s0 \<in> set (subproducts n ps)" "s = apply_perm p s0"
    by (auto simp: subproducts_snoc)
  then show ?case
  proof cases
    case 1
    with snoc.IH ps show ?thesis by blast
  next
    case 2
    from snoc.IH [OF ps 2(1)] have s0: "length s0 = n" "\<forall>i \<in> set s0. i < n" by auto
    have "length s = n" using 2(2) p by (simp add: apply_perm_def)
    moreover have "\<forall>i \<in> set s. i < n"
      using 2(2) p s0 by (auto simp: apply_perm_def)
    ultimately show ?thesis by blast
  qed
qed

lemma index_lists_subproducts:
  assumes "index_lists n ps"
  shows "index_lists n (subproducts n ps)"
  unfolding index_lists_def
proof
  fix s assume "s \<in> set (subproducts n ps)"
  with assms show "length s = n \<and> (\<forall>i \<in> set s. i < n)" by (rule subproducts_valid)
qed

lemma valid_nth: "length s = n \<and> (\<forall>i \<in> set s. i < n) \<Longrightarrow> i < n \<Longrightarrow> s ! i < n"
  by auto


























lemma subproducts_generated:
  "set ps \<subseteq> set perms \<Longrightarrow> s \<in> set (subproducts n ps) \<Longrightarrow> generated n perms s"
proof (induction ps arbitrary: s rule: rev_induct)
  case Nil
  then show ?case by (simp add: subproducts_Nil generated.identity)
next
  case (snoc p ps)
  from snoc.prems(1) have sub: "set ps \<subseteq> set perms" and p: "p \<in> set perms" by simp_all
  from snoc.prems(2) have "s \<in> set (subproducts n ps) \<or> s \<in> apply_perm p ` set (subproducts n ps)"
    unfolding subproducts_snoc by simp
  then show ?case
  proof
    assume "s \<in> set (subproducts n ps)"
    with sub show ?thesis by (rule snoc.IH)
  next
    assume "s \<in> apply_perm p ` set (subproducts n ps)"
    then obtain t where t: "t \<in> set (subproducts n ps)" "s = apply_perm p t" by blast
    from sub t(1) have "generated n perms t" by (rule snoc.IH)
    then have "generated n perms (apply_perm p t)" using p by (rule generated.product)
    with t(2) show ?thesis by simp
  qed
qed

lemma generated_subproducts:
  assumes cl: "products_closed n perms" and g: "generated n perms s"
  shows "s \<in> set (subproducts n perms)"
  using g
proof (induction rule: generated.induct)
  case identity
  show ?case by (rule identity_in_subproducts)
next
  case (product s p)
  from cl have "\<forall>p \<in> set perms. \<forall>s \<in> set (subproducts n perms).
      apply_perm p s \<in> set (subproducts n perms)"
    unfolding products_closed_def .
  then have "\<forall>s \<in> set (subproducts n perms). apply_perm p s \<in> set (subproducts n perms)"
    using product.hyps(2) by (rule bspec)
  then show ?case using product.IH by (rule bspec)
qed

lemma subproducts_are_generated:
  assumes "products_closed n perms"
  shows "set (subproducts n perms) = {s. generated n perms s}"
proof (intro set_eqI iffI)
  fix s assume "s \<in> set (subproducts n perms)"
  with subset_refl have "generated n perms s" by (rule subproducts_generated)
  then show "s \<in> {s. generated n perms s}" by simp
next
  fix s assume "s \<in> {s. generated n perms s}"
  then have "generated n perms s" by simp
  with assms show "s \<in> set (subproducts n perms)" by (rule generated_subproducts)
qed





end
